theory Spec2Isabelle
  imports Complex_Main "HOL-Library.Word"
begin

section \<open>JavaScript values and the operators the program applies to them\<close>

text \<open>
  The body of a model endpoint's reply is decoded by \<open>response.json()\<close> into a JavaScript
  value. \<open>jsval\<close> holds the decoded JSON values together with \<open>undefined\<close>, which is what
  reading an absent property gives. An object is the list of its own properties, read
  with \<open>map_of\<close>. A character of a \<open>string\<close> stands for one UTF-16 code unit in the
  range 0 to 255.

  The numbers are those of the engine, IEEE-754 doubles with their zeros, infinities and
  \<open>NaN\<close>. Their type \<open>'n\<close> and the operations the program reaches are parameters, so that
  every statement below holds for the arithmetic of the engine, whatever it rounds,
  overflows or prints: \<open>n_zero\<close> is the literal \<open>0\<close>, \<open>n_one\<close> is what \<open>true\<close> converts to,
  \<open>n_nan\<close> is what \<open>undefined\<close> converts to, \<open>n_falsy\<close> holds of the zeros and of \<open>NaN\<close>,
  \<open>n_add\<close> is \<open>+\<close> on two numbers and \<open>n_to_string\<close> is Number.prototype.toString.
\<close>

record 'n numbers =
  n_zero :: 'n
  n_one :: 'n
  n_nan :: 'n
  n_falsy :: "'n \<Rightarrow> bool"
  n_add :: "'n \<Rightarrow> 'n \<Rightarrow> 'n"
  n_to_string :: "'n \<Rightarrow> string"

datatype 'n jsval =
    JUndefined
  | JNull
  | JBool bool
  | JNum 'n
  | JStr string
  | JArr "'n jsval list"
  | JObj "(string \<times> 'n jsval) list"

text \<open>
  The errors. \<open>Error m\<close> is \<open>new Error(m)\<close>, thrown by the program. A \<open>TypeError\<close> is
  thrown by the engine inside the program: on reading a property of \<open>null\<close> or
  \<open>undefined\<close>, on converting to a primitive an object that has none, on calling a
  property that is not a function; the engine words its message. \<open>Rejection m\<close> is a
  rejection of \<open>fetch\<close> or of \<open>response.json()\<close>, with its message.
\<close>

datatype nullish = Null | Undefined

datatype type_error =
    PropertyOfNullish nullish string
  | NotPrimitive
  | NotAFunction string

datatype error = Error string | TypeError type_error | Rejection string

definition ebind :: "error + 'a \<Rightarrow> ('a \<Rightarrow> error + 'b) \<Rightarrow> error + 'b" where
  "ebind m f = (case m of Inl e \<Rightarrow> Inl e | Inr v \<Rightarrow> f v)"

text \<open>ToBoolean: the falsy values are \<open>undefined\<close>, \<open>null\<close>, \<open>false\<close>, the zeros, \<open>NaN\<close>
  and the empty string; arrays and objects are always truthy.\<close>

fun truthy :: "'n numbers \<Rightarrow> 'n jsval \<Rightarrow> bool" where
  "truthy N JUndefined = False"
| "truthy N JNull = False"
| "truthy N (JBool b) = b"
| "truthy N (JNum n) = (\<not> n_falsy N n)"
| "truthy N (JStr s) = (s \<noteq> [])"
| "truthy N (JArr xs) = True"
| "truthy N (JObj kvs) = True"

text \<open>
  \<open>v.name\<close> for the property names the program reads (\<open>choices\<close>, \<open>message\<close>,
  \<open>content\<close>, \<open>text\<close>, \<open>usage\<close> and the token counters): none of them is an index or
  a property of a built-in prototype, so only an object can hold one. Reading a property
  of \<open>null\<close> or \<open>undefined\<close> throws a TypeError.
\<close>

fun get_prop :: "'n jsval \<Rightarrow> string \<Rightarrow> error + 'n jsval" where
  "get_prop JUndefined k = Inl (TypeError (PropertyOfNullish Undefined k))"
| "get_prop JNull k = Inl (TypeError (PropertyOfNullish Null k))"
| "get_prop (JObj kvs) k = Inr (case map_of kvs k of None \<Rightarrow> JUndefined | Some v \<Rightarrow> v)"
| "get_prop v k = Inr JUndefined"

text \<open>
  \<open>v[0]\<close>: the first element of an array, the first code unit of a string, the property
  \<open>"0"\<close> of an object; \<open>undefined\<close> where there is none.
\<close>

fun get_index0 :: "'n jsval \<Rightarrow> error + 'n jsval" where
  "get_index0 JUndefined = Inl (TypeError (PropertyOfNullish Undefined ''0''))"
| "get_index0 JNull = Inl (TypeError (PropertyOfNullish Null ''0''))"
| "get_index0 (JArr xs) = Inr (case xs of [] \<Rightarrow> JUndefined | x # _ \<Rightarrow> x)"
| "get_index0 (JStr s) = Inr (case s of [] \<Rightarrow> JUndefined | c # _ \<Rightarrow> JStr [c])"
| "get_index0 (JObj kvs) = Inr (case map_of kvs ''0'' of None \<Rightarrow> JUndefined | Some v \<Rightarrow> v)"
| "get_index0 v = Inr JUndefined"

text \<open>\<open>a || b\<close> on values: \<open>a\<close> when it is truthy, \<open>b\<close> otherwise.\<close>

definition js_or :: "'n numbers \<Rightarrow> 'n jsval \<Rightarrow> 'n jsval \<Rightarrow> 'n jsval" where
  "js_or N a b = (if truthy N a then a else b)"

text \<open>
  ToString. A decoded object inherits \<open>Object.prototype.toString\<close> and is
  \<open>[object Object]\<close>, unless it has an own property \<open>toString\<close>: a decoded value is never
  a function, the inherited \<open>valueOf\<close> returns the object itself, and the conversion
  throws a TypeError. An array is its elements joined by commas, from left to right,
  \<open>null\<close> and \<open>undefined\<close> elements giving the empty string.
\<close>

fun to_string :: "'n numbers \<Rightarrow> 'n jsval \<Rightarrow> error + string"
  and join_elements :: "'n numbers \<Rightarrow> 'n jsval list \<Rightarrow> error + string" where
  "to_string N JUndefined = Inr ''undefined''"
| "to_string N JNull = Inr ''null''"
| "to_string N (JBool b) = Inr (if b then ''true'' else ''false'')"
| "to_string N (JNum n) = Inr (n_to_string N n)"
| "to_string N (JStr s) = Inr s"
| "to_string N (JArr xs) = join_elements N xs"
| "to_string N (JObj kvs) =
     (case map_of kvs ''toString'' of
        None \<Rightarrow> Inr ''[object Object]''
      | Some f \<Rightarrow> Inl (TypeError NotPrimitive))"
| "join_elements N [] = Inr []"
| "join_elements N (x # xs) =
     ebind (case x of JNull \<Rightarrow> Inr [] | JUndefined \<Rightarrow> Inr [] | _ \<Rightarrow> to_string N x) (\<lambda>s.
       if xs = [] then Inr s
       else ebind (join_elements N xs) (\<lambda>r. Inr (s @ '','' @ r)))"

text \<open>ToPrimitive: an array or an object becomes its string, or throws as ToString does.\<close>

fun to_primitive :: "'n numbers \<Rightarrow> 'n jsval \<Rightarrow> error + 'n jsval" where
  "to_primitive N (JArr xs) = ebind (to_string N (JArr xs)) (\<lambda>s. Inr (JStr s))"
| "to_primitive N (JObj kvs) = ebind (to_string N (JObj kvs)) (\<lambda>s. Inr (JStr s))"
| "to_primitive N v = Inr v"

text \<open>ToNumber on the primitives that are not strings. \<open>None\<close> marks a string operand
  (arrays and objects have become strings before).\<close>

fun to_number :: "'n numbers \<Rightarrow> 'n jsval \<Rightarrow> 'n option" where
  "to_number N (JNum n) = Some n"
| "to_number N (JBool b) = Some (if b then n_one N else n_zero N)"
| "to_number N JNull = Some (n_zero N)"
| "to_number N JUndefined = Some (n_nan N)"
| "to_number N v = None"

text \<open>
  \<open>a + b\<close>: both operands are converted to primitives, the left one first; as soon as
  one primitive is a string the two are concatenated as strings, and otherwise they are
  added as numbers.
\<close>

definition js_add :: "'n numbers \<Rightarrow> 'n jsval \<Rightarrow> 'n jsval \<Rightarrow> error + 'n jsval" where
  "js_add N a b =
     ebind (to_primitive N a) (\<lambda>pa.
     ebind (to_primitive N b) (\<lambda>pb.
       case (to_number N pa, to_number N pb) of
         (Some x, Some y) \<Rightarrow> Inr (JNum (n_add N x y))
       | _ \<Rightarrow> ebind (to_string N pa) (\<lambda>sa.
              ebind (to_string N pb) (\<lambda>sb. Inr (JStr (sa @ sb))))))"

section \<open>The response normalizer (the parsing part of \<open>callModel\<close>)\<close>

record 'n parsed =
  content :: "'n jsval"
  promptTokens :: "'n jsval"
  completionTokens :: "'n jsval"
  totalTokens :: "'n jsval"

text \<open>\<open>data.choices && data.choices[0] && data.choices[0].message\<close>, as a condition.\<close>

definition shapeA_test :: "'n numbers \<Rightarrow> 'n jsval \<Rightarrow> error + bool" where
  "shapeA_test N data =
     ebind (get_prop data ''choices'') (\<lambda>c.
       if \<not> truthy N c then Inr False
       else ebind (get_index0 c) (\<lambda>e.
         if \<not> truthy N e then Inr False
         else ebind (get_prop e ''message'') (\<lambda>m. Inr (truthy N m))))"

text \<open>\<open>data.content && data.content[0] && data.content[0].text\<close>, as a condition.\<close>

definition shapeB_test :: "'n numbers \<Rightarrow> 'n jsval \<Rightarrow> error + bool" where
  "shapeB_test N data =
     ebind (get_prop data ''content'') (\<lambda>c.
       if \<not> truthy N c then Inr False
       else ebind (get_index0 c) (\<lambda>e.
         if \<not> truthy N e then Inr False
         else ebind (get_prop e ''text'') (\<lambda>t. Inr (truthy N t))))"

text \<open>
  The usage blocks of the two branches. Each starts from the locals' initial values
  0, 0, 0 and overwrites them only when \<open>data.usage\<close> is truthy. The OpenAI block reads
  \<open>prompt_tokens\<close>, \<open>completion_tokens\<close> and \<open>total_tokens\<close>, each \<open>|| 0\<close>; the Anthropic
  block reads \<open>input_tokens\<close> and \<open>output_tokens\<close>, each \<open>|| 0\<close>, and adds the two results
  with \<open>+\<close>, which may throw. The triple is (promptTokens, completionTokens, totalTokens).
\<close>

definition usage_openai :: "'n numbers \<Rightarrow> 'n jsval \<Rightarrow> error + ('n jsval \<times> 'n jsval \<times> 'n jsval)" where
  "usage_openai N data =
     ebind (get_prop data ''usage'') (\<lambda>u.
       if truthy N u then
         ebind (get_prop u ''prompt_tokens'') (\<lambda>p.
         ebind (get_prop u ''completion_tokens'') (\<lambda>q.
         ebind (get_prop u ''total_tokens'') (\<lambda>t.
           Inr (js_or N p (JNum (n_zero N)), js_or N q (JNum (n_zero N)),
                js_or N t (JNum (n_zero N))))))
       else Inr (JNum (n_zero N), JNum (n_zero N), JNum (n_zero N)))"

definition usage_anthropic :: "'n numbers \<Rightarrow> 'n jsval \<Rightarrow> error + ('n jsval \<times> 'n jsval \<times> 'n jsval)" where
  "usage_anthropic N data =
     ebind (get_prop data ''usage'') (\<lambda>u.
       if truthy N u then
         ebind (get_prop u ''input_tokens'') (\<lambda>p.
         ebind (get_prop u ''output_tokens'') (\<lambda>q.
           let promptTokens = js_or N p (JNum (n_zero N));
               completionTokens = js_or N q (JNum (n_zero N))
           in ebind (js_add N promptTokens completionTokens) (\<lambda>totalTokens.
                Inr (promptTokens, completionTokens, totalTokens))))
       else Inr (JNum (n_zero N), JNum (n_zero N), JNum (n_zero N)))"

text \<open>
  Lines 91 to 125 of \<open>callModel\<close>, without the response time: the OpenAI branch takes the
  content from \<open>data.choices[0].message.content\<close>, the Anthropic branch from
  \<open>data.content[0].text\<close>; any other value throws \<open>Error('Unexpected response format')\<close>.
\<close>

definition normalize :: "'n numbers \<Rightarrow> 'n jsval \<Rightarrow> error + 'n parsed" where
  "normalize N data =
     ebind (shapeA_test N data) (\<lambda>a.
       if a then
         ebind (get_prop data ''choices'') (\<lambda>cs.
         ebind (get_index0 cs) (\<lambda>c0.
         ebind (get_prop c0 ''message'') (\<lambda>m.
         ebind (get_prop m ''content'') (\<lambda>c.
         ebind (usage_openai N data) (\<lambda>(p, q, t).
           Inr \<lparr>content = c, promptTokens = p, completionTokens = q, totalTokens = t\<rparr>)))))
       else
         ebind (shapeB_test N data) (\<lambda>b.
           if b then
             ebind (get_prop data ''content'') (\<lambda>cs.
             ebind (get_index0 cs) (\<lambda>c0.
             ebind (get_prop c0 ''text'') (\<lambda>c.
             ebind (usage_anthropic N data) (\<lambda>(p, q, t).
               Inr \<lparr>content = c, promptTokens = p, completionTokens = q, totalTokens = t\<rparr>))))
           else Inl (Error ''Unexpected response format'')))"

section \<open>The escaper\<close>

text \<open>
  \<open>escapeHtml\<close> creates a \<open>div\<close>, assigns the text to its \<open>textContent\<close> and reads its
  \<open>innerHTML\<close> back. The part of the DOM this needs: an element with a tag name and child
  nodes, where the only children that arise are text nodes. Assigning \<open>textContent\<close>
  replaces the children by one text node, or by none when the string is empty. Reading
  \<open>innerHTML\<close> serialises the children; a text node is written literally under a raw-text
  parent, and otherwise escaped by the HTML standard's steps, in this order: every
  \<open>&\<close> becomes \<open>&amp;\<close>, every U+00A0 (no-break space) becomes \<open>&nbsp;\<close>, every \<open><\<close>
  becomes \<open>&lt;\<close>, every \<open>>\<close> becomes \<open>&gt;\<close>.
\<close>

datatype node = Text string

record element =
  tagName :: string
  childNodes :: "node list"

definition createElement :: "string \<Rightarrow> element" where
  "createElement t = \<lparr>tagName = t, childNodes = []\<rparr>"

definition set_textContent :: "element \<Rightarrow> string \<Rightarrow> element" where
  "set_textContent el text = el\<lparr>childNodes := (if text = [] then [] else [Text text])\<rparr>"

definition replace_all :: "char \<Rightarrow> string \<Rightarrow> string \<Rightarrow> string" where
  "replace_all c r s = concat (map (\<lambda>x. if x = c then r else [x]) s)"

definition nbsp :: char where
  "nbsp = CHR 0xA0"

definition escape_text :: "string \<Rightarrow> string" where
  "escape_text s =
     replace_all CHR ''>'' ''&gt;''
       (replace_all CHR ''<'' ''&lt;''
         (replace_all nbsp ''&nbsp;''
           (replace_all CHR ''&'' ''&amp;'' s)))"

definition raw_text_elements :: "string list" where
  "raw_text_elements =
     [''style'', ''script'', ''xmp'', ''iframe'', ''noembed'', ''noframes'', ''plaintext'']"

fun serialize_node :: "string \<Rightarrow> node \<Rightarrow> string" where
  "serialize_node parent (Text s) =
     (if parent \<in> set raw_text_elements then s else escape_text s)"

definition innerHTML :: "element \<Rightarrow> string" where
  "innerHTML el = concat (map (serialize_node (tagName el)) (childNodes el))"

definition escapeHtml :: "string \<Rightarrow> string" where
  "escapeHtml text = innerHTML (set_textContent (createElement ''div'') text)"

section \<open>The difference highlighter\<close>

text \<open>The regular expression class \<open>\s\<close>, on the code units 0 to 255: tab, line feed,
  vertical tab, form feed, carriage return, space and no-break space.\<close>

definition is_space :: "char \<Rightarrow> bool" where
  "is_space c =
     (c \<in> set [CHR 0x09, CHR 0x0A, CHR 0x0B, CHR 0x0C, CHR 0x0D, CHR 0x20, CHR 0xA0])"

text \<open>
  \<open>text.split(/(\s+)/)\<close>: the scan collects the current piece until a whitespace
  character; the separator is then the longest run of whitespace from there, and because
  the pattern captures it, the run is stored after the piece. The last piece is stored at
  the end of the text, also when it is empty, so the empty text gives one empty piece.
\<close>

function split_from :: "string \<Rightarrow> string \<Rightarrow> string list" where
  "split_from cur [] = [cur]"
| "split_from cur (c # cs) =
     (if is_space c
      then cur # takeWhile is_space (c # cs) # split_from [] (dropWhile is_space cs)
      else split_from (cur @ [c]) cs)"
  by pat_completeness auto
termination
  by (relation "measure (\<lambda>(cur, s). length s)")
     (auto simp: less_Suc_eq_le length_dropWhile_le)

definition split_spaces :: "string \<Rightarrow> string list" where
  "split_spaces text = split_from [] text"

definition removed_open :: string where
  \<open>removed_open = ''<span class="diff-removed">''\<close>

definition added_open :: string where
  \<open>added_open = ''<span class="diff-added">''\<close>

definition span_close :: string where
  "span_close = ''</span>''"

text \<open>\<open>words[i] || ''\<close>: the token at position \<open>i\<close>, the empty string when the position is
  past the end (\<open>undefined\<close>) or the token is empty.\<close>

definition word_at :: "string list \<Rightarrow> nat \<Rightarrow> string" where
  "word_at ws i = (if i < length ws \<and> ws ! i \<noteq> [] then ws ! i else [])"

text \<open>One pass of the loop body at position \<open>i\<close>, on the two accumulated outputs.\<close>

definition highlight_step :: "string list \<Rightarrow> string list \<Rightarrow> nat \<Rightarrow> string \<times> string \<Rightarrow> string \<times> string" where
  "highlight_step words1 words2 i acc =
     (let word1 = word_at words1 i;
          word2 = word_at words2 i;
          highlighted1 = fst acc;
          highlighted2 = snd acc
      in if word1 \<noteq> word2 then
           (if word1 \<noteq> [] then highlighted1 @ removed_open @ escapeHtml word1 @ span_close
            else highlighted1,
            if word2 \<noteq> [] then highlighted2 @ added_open @ escapeHtml word2 @ span_close
            else highlighted2)
         else (highlighted1 @ escapeHtml word1, highlighted2 @ escapeHtml word2))"

definition highlightDifferences :: "string \<Rightarrow> string \<Rightarrow> string \<times> string" where
  "highlightDifferences text1 text2 =
     (let words1 = split_spaces text1;
          words2 = split_spaces text2;
          maxLength = max (length words1) (length words2)
      in fold (highlight_step words1 words2) [0..<maxLength] ([], []))"

text \<open>
  Stripping the markers from an output: every occurrence of the two opening tags and of
  the closing tag is deleted, scanning from the left; everything else is kept.
\<close>

function strip_markers :: "string \<Rightarrow> string" where
  "strip_markers [] = []"
| "strip_markers (c # cs) =
     (if take (length removed_open) (c # cs) = removed_open
      then strip_markers (drop (length removed_open) (c # cs))
      else if take (length added_open) (c # cs) = added_open
      then strip_markers (drop (length added_open) (c # cs))
      else if take (length span_close) (c # cs) = span_close
      then strip_markers (drop (length span_close) (c # cs))
      else c # strip_markers cs)"
  by pat_completeness auto
termination
  by (relation "measure length")
     (auto simp: removed_open_def added_open_def span_close_def)

section \<open>The model caller and the comparison\<close>

text \<open>
  The request \<open>callModel\<close> sends: a POST to the endpoint with a JSON content type and a
  bearer token, whose body is the serialisation of the payload (model, one user message
  with the prompt, \<open>max_tokens\<close> 1000, \<open>temperature\<close> 0.7).
\<close>

record payload =
  p_model :: string
  p_messages :: "(string \<times> string) list"
  p_max_tokens :: int
  p_temperature :: rat

record request =
  req_url :: string
  req_method :: string
  req_headers :: "(string \<times> string) list"
  req_body :: payload

text \<open>A response: \<open>status\<close> is an unsigned 16-bit integer; \<open>json\<close> is what
  \<open>response.json()\<close> settles to, the message of its rejection or the decoded value.\<close>

record 'n response =
  ok :: bool
  status :: "16 word"
  statusText :: string
  json :: "string + 'n jsval"

text \<open>
  What the program does not decide: the engine's numbers and the wording of its
  TypeErrors, what \<open>fetch\<close> answers to a request (the message of a rejection, or a
  response), what \<open>Date.now()\<close> reads before the request and after the response, and, when
  both calls of a comparison reject, which one rejects first.
\<close>

record 'n env =
  numbers :: "'n numbers"
  type_error_message :: "type_error \<Rightarrow> string"
  fetch :: "request \<Rightarrow> string + 'n response"
  startTime :: "request \<Rightarrow> int"
  endTime :: "request \<Rightarrow> int"
  first_rejects_first :: bool

record 'n result = "'n parsed" +
  responseTime :: int

text \<open>The decimal digits of a natural number; a template literal prints the status, an
  integer below \<open>2^16\<close>, so.\<close>

fun digits :: "nat \<Rightarrow> string" where
  "digits n = (if n < 10 then [''0123456789'' ! n]
               else digits (n div 10) @ [''0123456789'' ! (n mod 10)])"

declare digits.simps [simp del]

definition make_request :: "string \<Rightarrow> string \<Rightarrow> string \<Rightarrow> string \<Rightarrow> request" where
  "make_request endpoint apiKey model prompt =
     \<lparr>req_url = endpoint,
      req_method = ''POST'',
      req_headers = [(''Content-Type'', ''application/json''),
                     (''Authorization'', ''Bearer '' @ apiKey)],
      req_body = \<lparr>p_model = model, p_messages = [(''user'', prompt)],
                  p_max_tokens = 1000, p_temperature = 7 / 10\<rparr>\<rparr>"

text \<open>\<open>callModel\<close>: the request it sends, and what its promise settles to.\<close>

definition callModel :: "'n env \<Rightarrow> string \<Rightarrow> string \<Rightarrow> string \<Rightarrow> string \<Rightarrow> request \<times> (error + 'n result)" where
  "callModel e endpoint apiKey model prompt =
     (let req = make_request endpoint apiKey model prompt in
      (req,
       case fetch e req of
         Inl rejected \<Rightarrow> Inl (Rejection rejected)
       | Inr resp \<Rightarrow>
           (let responseTime = endTime e req - startTime e req in
            if \<not> ok resp
            then Inl (Error (''HTTP '' @ digits (unat (status resp)) @ '': '' @ statusText resp))
            else (case json resp of
                    Inl rejected \<Rightarrow> Inl (Rejection rejected)
                  | Inr data \<Rightarrow>
                      ebind (normalize (numbers e) data) (\<lambda>r.
                        Inr \<lparr>content = content r, promptTokens = promptTokens r,
                             completionTokens = completionTokens r,
                             totalTokens = totalTokens r,
                             responseTime = responseTime\<rparr>)))))"

text \<open>
  The page: the seven form fields and the toggle, the alerts shown, the requests sent,
  the console, the \<open>display\<close> styles of the loading indicator and of the results, and the
  four panels. A panel holds what was last assigned to it, with the fixed markup around
  the values left out: the metrics of one model (its name, the response time and the
  three counters as the template literal prints them), markup assigned to \<open>innerHTML\<close>,
  the text assigned to \<open>textContent\<close>, or the error box with the message it shows.
\<close>

datatype panel =
    Untouched
  | Cleared
  | Metrics string int string string string
  | Markup string
  | PlainText string
  | ErrorBox string

record page =
  endpoint1 :: string
  endpoint2 :: string
  apikey1 :: string
  apikey2 :: string
  model1 :: string
  model2 :: string
  prompt :: string
  highlightToggle :: bool
  alerts :: "string list"
  sent :: "request list"
  console :: "error list"
  loading_display :: string
  results_display :: string
  metrics1 :: panel
  metrics2 :: panel
  response1 :: panel
  response2 :: panel

text \<open>\<open>error.message\<close>: the text given to \<open>new Error\<close>, the message of a rejection, or
  the engine's wording of a TypeError.\<close>

fun message :: "'n env \<Rightarrow> error \<Rightarrow> string" where
  "message e (Error m) = m"
| "message e (Rejection m) = m"
| "message e (TypeError t) = type_error_message e t"

definition displayError :: "string \<Rightarrow> page \<Rightarrow> page" where
  "displayError msg pg =
     pg\<lparr>metrics1 := Cleared, metrics2 := Cleared, response1 := ErrorBox msg,
        response2 := Cleared, results_display := ''block''\<rparr>"

text \<open>
  \<open>text.split(...)\<close> on a value, as \<open>highlightDifferences\<close> calls it on each content: only
  a string has the method; reading it from \<open>null\<close> or \<open>undefined\<close> throws, and calling it
  on any other value throws because the property is not a function.
\<close>

fun as_text :: "'n jsval \<Rightarrow> error + string" where
  "as_text (JStr s) = Inr s"
| "as_text JUndefined = Inl (TypeError (PropertyOfNullish Undefined ''split''))"
| "as_text JNull = Inl (TypeError (PropertyOfNullish Null ''split''))"
| "as_text v = Inl (TypeError (NotAFunction ''split''))"

text \<open>
  The metrics of one result, as the template literal builds them: each counter is
  converted by ToString, in the order prompt, completion, total, and the conversion of an
  object that has no primitive value throws.
\<close>

definition metrics_of :: "'n numbers \<Rightarrow> string \<Rightarrow> 'n result \<Rightarrow> error + panel" where
  "metrics_of N modelName res =
     ebind (to_string N (promptTokens res)) (\<lambda>p.
     ebind (to_string N (completionTokens res)) (\<lambda>c.
     ebind (to_string N (totalTokens res)) (\<lambda>t.
       Inr (Metrics modelName (responseTime res) p c t))))"

text \<open>Assigning a value to \<open>textContent\<close>, a nullable string attribute: \<open>null\<close> and
  \<open>undefined\<close> give the empty text, any other value is converted by ToString.\<close>

fun text_content :: "'n numbers \<Rightarrow> 'n jsval \<Rightarrow> error + string" where
  "text_content N JNull = Inr []"
| "text_content N JUndefined = Inr []"
| "text_content N v = to_string N v"

text \<open>
  \<open>displayResults\<close> writes the metrics panel of the first model, then that of the second.
  With the toggle on it calls \<open>highlightDifferences\<close>, which splits the first content
  and then the second, and writes both markups; with the toggle off it assigns the two
  contents as text. When a step throws, the caller runs \<open>displayError\<close>, which overwrites
  every panel written before the throw.
\<close>

definition displayResults :: "'n numbers \<Rightarrow> 'n result \<Rightarrow> 'n result \<Rightarrow> string \<Rightarrow> string \<Rightarrow> page \<Rightarrow> error + page" where
  "displayResults N result1 result2 model1Name model2Name pg =
     ebind (metrics_of N model1Name result1) (\<lambda>m1.
     ebind (metrics_of N model2Name result2) (\<lambda>m2.
       let pg1 = pg\<lparr>metrics1 := m1, metrics2 := m2\<rparr>
       in if highlightToggle pg1 then
            ebind (as_text (content result1)) (\<lambda>text1.
            ebind (as_text (content result2)) (\<lambda>text2.
              let hl = highlightDifferences text1 text2
              in Inr (pg1\<lparr>response1 := Markup (fst hl), response2 := Markup (snd hl),
                          results_display := ''block''\<rparr>)))
          else
            ebind (text_content N (content result1)) (\<lambda>t1.
            ebind (text_content N (content result2)) (\<lambda>t2.
              Inr (pg1\<lparr>response1 := PlainText t1, response2 := PlainText t2,
                        results_display := ''block''\<rparr>)))))"

text \<open>
  \<open>compareResponses\<close>. The guard returns after the alert. Past it both calls are started,
  so both requests are sent, before either is awaited; \<open>Promise.all\<close> rejects with the
  first rejection. Every error, also one thrown by \<open>displayResults\<close>, is logged and shown
  by \<open>displayError\<close>, which overwrites all four panels; the loading indicator is hidden
  in the end.
\<close>

definition compareResponses :: "'n env \<Rightarrow> page \<Rightarrow> page" where
  "compareResponses e pg =
     (if endpoint1 pg = [] \<or> endpoint2 pg = [] \<or> apikey1 pg = [] \<or> apikey2 pg = [] \<or>
         model1 pg = [] \<or> model2 pg = [] \<or> prompt pg = []
      then pg\<lparr>alerts := alerts pg @ [''Please fill in all fields'']\<rparr>
      else
        let pg1 = pg\<lparr>loading_display := ''block'', results_display := ''none''\<rparr>;
            call1 = callModel e (endpoint1 pg) (apikey1 pg) (model1 pg) (prompt pg);
            call2 = callModel e (endpoint2 pg) (apikey2 pg) (model2 pg) (prompt pg);
            pg2 = pg1\<lparr>sent := sent pg1 @ [fst call1, fst call2]\<rparr>;
            failed = (\<lambda>err. displayError (''Error comparing responses: '' @ message e err)
                               (pg2\<lparr>console := console pg2 @ [err]\<rparr>));
            pg3 = (case (snd call1, snd call2) of
                     (Inr result1, Inr result2) \<Rightarrow>
                       (case displayResults (numbers e) result1 result2 (model1 pg) (model2 pg) pg2 of
                          Inr shown \<Rightarrow> shown
                        | Inl err \<Rightarrow> failed err)
                   | (Inl err1, Inr result2) \<Rightarrow> failed err1
                   | (Inr result1, Inl err2) \<Rightarrow> failed err2
                   | (Inl err1, Inl err2) \<Rightarrow>
                       failed (if first_rejects_first e then err1 else err2))
        in pg3\<lparr>loading_display := ''none''\<rparr>)"

section \<open>Numbers for the examples\<close>

text \<open>
  The examples below need numbers to run on. They use the integers with \<open>NaN\<close> added
  (\<open>None\<close>), exact addition and decimal printing. This is the arithmetic of the engine on
  the safe integers (magnitude below \<open>2^53\<close>, results included), and the examples stay
  far inside them; every theorem on the program is stated for arbitrary numbers instead.
\<close>

definition number_to_string :: "int option \<Rightarrow> string" where
  "number_to_string x =
     (case x of
        None \<Rightarrow> ''NaN''
      | Some i \<Rightarrow> if i < 0 then CHR ''-'' # digits (nat (- i)) else digits (nat i))"

definition small_integers :: "int option numbers" where
  "small_integers =
     \<lparr>n_zero = Some 0, n_one = Some 1, n_nan = None,
      n_falsy = (\<lambda>x. x = None \<or> x = Some 0),
      n_add = (\<lambda>x y. case (x, y) of (Some a, Some b) \<Rightarrow> Some (a + b) | _ \<Rightarrow> None),
      n_to_string = number_to_string\<rparr>"

section \<open>Predicates of the statements\<close>

text \<open>A value is primitive when it is neither an array nor an object.\<close>

fun primitive :: "'n jsval \<Rightarrow> bool" where
  "primitive (JArr xs) = False"
| "primitive (JObj kvs) = False"
| "primitive v = True"

text \<open>Among the numbers of the examples, a count is a non-negative integer.\<close>

fun is_count :: "int option jsval \<Rightarrow> bool" where
  "is_count (JNum (Some n)) = (0 \<le> n)"
| "is_count v = False"

section \<open>The tokenizer and the escaper\<close>

lemma concat_split_from: "concat (split_from cur s) = cur @ s"
proof (induction cur s rule: split_from.induct)
  case (1 cur)
  show ?case by simp
next
  case (2 cur c cs)
  show ?case
  proof (cases "is_space c")
    case True
    with 2 show ?thesis by simp
  next
    case False
    with 2 show ?thesis by simp
  qed
qed

lemma split_examples:
  "split_spaces [] = [[]]"
  "split_spaces '' a  b '' = [[], '' '', ''a'', ''  '', ''b'', '' '', []]"
  by (simp_all add: split_spaces_def is_space_def)

lemma tokens_rebuild_text: "concat (split_spaces s) = s"
  by (simp add: split_spaces_def concat_split_from)

text \<open>
  Claim C5. For every text, the tokens that \<open>split(/(\s+)/)\<close> produces, whitespace runs
  included, concatenated in order, are the text again: the split discards nothing.
\<close>

theorem split_spaces_concat: "concat (split_spaces s) = s"
  by (simp add: split_spaces_def concat_split_from)

lemma escape_text_Nil: "escape_text [] = []"
  by (simp add: escape_text_def replace_all_def)

lemma escape_text_Cons:
  "escape_text (x # s) =
     (if x = CHR ''&'' then ''&amp;'' else if x = CHR ''<'' then ''&lt;''
      else if x = CHR ''>'' then ''&gt;'' else if x = nbsp then ''&nbsp;'' else [x])
     @ escape_text s"
  by (simp add: escape_text_def replace_all_def nbsp_def)

lemma escapeHtml_escape_text: "escapeHtml s = escape_text s"
  by (simp add: escapeHtml_def innerHTML_def set_textContent_def createElement_def
      raw_text_elements_def escape_text_Nil)

lemma escapeHtml_charwise:
  "escapeHtml s =
     concat (map (\<lambda>x. if x = CHR ''&'' then ''&amp;'' else if x = CHR ''<'' then ''&lt;''
                      else if x = CHR ''>'' then ''&gt;'' else if x = nbsp then ''&nbsp;''
                      else [x]) s)"
  unfolding escapeHtml_escape_text
  by (induction s) (simp_all add: escape_text_Nil escape_text_Cons del: append.simps)

text \<open>The expectations of the repository's tests of \<open>escapeHtml\<close>.\<close>

lemma escapeHtml_repository_tests:
  "escapeHtml ''<div>test</div>'' = ''&lt;div&gt;test&lt;/div&gt;''"
  "escapeHtml ''<script>alert(\"xss\")</script>'' = ''&lt;script&gt;alert(\"xss\")&lt;/script&gt;''"
  "escapeHtml ''normal text'' = ''normal text''"
  "escapeHtml ''Tom & Jerry'' = ''Tom &amp; Jerry''"
  "escapeHtml [] = []"
  by (simp_all add: escapeHtml_charwise nbsp_def)

lemma escapeHtml_append: "escapeHtml (a @ b) = escapeHtml a @ escapeHtml b"
  by (simp add: escapeHtml_charwise)

lemma escapeHtml_concat: "escapeHtml (concat xs) = concat (map escapeHtml xs)"
  by (induction xs) (simp_all add: escapeHtml_append escapeHtml_charwise)

lemma escapeHtml_length: "length s \<le> length (escapeHtml s)"
  unfolding escapeHtml_charwise by (induction s) auto

lemma escapeHtml_amp_longer:
  "CHR ''&'' \<in> set s \<Longrightarrow> length s < length (escapeHtml s)"
  unfolding escapeHtml_charwise
proof (induction s)
  case Nil
  then show ?case by simp
next
  case (Cons a s)
  have "length s \<le> length (escapeHtml s)" by (rule escapeHtml_length)
  then show ?case using Cons unfolding escapeHtml_charwise by (auto simp: le_imp_less_Suc)
qed

lemma escapeHtml_has_amp:
  "c \<in> set s \<Longrightarrow> c = CHR ''&'' \<or> c = CHR ''<'' \<or> c = CHR ''>'' \<or> c = nbsp \<Longrightarrow>
   CHR ''&'' \<in> set (escapeHtml s)"
  unfolding escapeHtml_charwise by (induction s) auto

lemma escapeHtml_plain:
  "\<forall>c \<in> set s. c \<noteq> CHR ''&'' \<and> c \<noteq> CHR ''<'' \<and> c \<noteq> CHR ''>'' \<and> c \<noteq> nbsp \<Longrightarrow> escapeHtml s = s"
  unfolding escapeHtml_charwise by (induction s) auto

text \<open>
  Claim C4, amended. Escaping twice is not escaping once in general. The two agree exactly
  on the texts that contain none of the characters the escaper rewrites (\<open>&\<close>, \<open><\<close>,
  \<open>>\<close> and the no-break space), which it returns unchanged; the escaped form of any other
  text contains \<open>&\<close>, and a second pass rewrites it again.
\<close>

theorem escapeHtml_twice:
  "(escapeHtml (escapeHtml t) = escapeHtml t) =
   (\<forall>c \<in> set t. c \<noteq> CHR ''&'' \<and> c \<noteq> CHR ''<'' \<and> c \<noteq> CHR ''>'' \<and> c \<noteq> nbsp)"
proof
  assume eq: "escapeHtml (escapeHtml t) = escapeHtml t"
  show "\<forall>c \<in> set t. c \<noteq> CHR ''&'' \<and> c \<noteq> CHR ''<'' \<and> c \<noteq> CHR ''>'' \<and> c \<noteq> nbsp"
  proof (rule ccontr)
    assume "\<not> ?thesis"
    then obtain c where "c \<in> set t" "c = CHR ''&'' \<or> c = CHR ''<'' \<or> c = CHR ''>'' \<or> c = nbsp"
      by blast
    then have "CHR ''&'' \<in> set (escapeHtml t)" by (rule escapeHtml_has_amp)
    then have "length (escapeHtml t) < length (escapeHtml (escapeHtml t))"
      by (rule escapeHtml_amp_longer)
    with eq show False by simp
  qed
next
  assume "\<forall>c \<in> set t. c \<noteq> CHR ''&'' \<and> c \<noteq> CHR ''<'' \<and> c \<noteq> CHR ''>'' \<and> c \<noteq> nbsp"
  then have "escapeHtml t = t" by (rule escapeHtml_plain)
  then show "escapeHtml (escapeHtml t) = escapeHtml t" by simp
qed

theorem escapeHtml_twice_witness:
  "escapeHtml ''a \"b\" c'' = ''a \"b\" c'' \<and>
   escapeHtml (escapeHtml ''a \"b\" c'') = escapeHtml ''a \"b\" c''"
  using escapeHtml_twice [of "''a \"b\" c''"] by (simp add: nbsp_def escapeHtml_plain)

text \<open>The claim as stated fails at the text \<open>&\<close>, whose escaped form is escaped again.\<close>

theorem escapeHtml_not_idempotent:
  "escapeHtml ''&'' = ''&amp;'' \<and> escapeHtml (escapeHtml ''&'') = ''&amp;amp;'' \<and>
   escapeHtml (escapeHtml ''&'') \<noteq> escapeHtml ''&''"
  by (simp add: escapeHtml_charwise nbsp_def)

text \<open>
  Claim C10, amended. The escaper rewrites exactly four characters: \<open>&\<close> to \<open>&amp;\<close>,
  \<open><\<close> to \<open>&lt;\<close>, \<open>>\<close> to \<open>&gt;\<close> and the no-break space U+00A0 to \<open>&nbsp;\<close>. Every
  other character, the double quote and the single quote among them, is copied.
\<close>

theorem escapeHtml_rewrites_four:
  "escapeHtml s =
     concat (map (\<lambda>x. if x = CHR ''&'' then ''&amp;'' else if x = CHR ''<'' then ''&lt;''
                      else if x = CHR ''>'' then ''&gt;'' else if x = CHR 0xA0 then ''&nbsp;''
                      else [x]) s)"
  using escapeHtml_charwise [of s] unfolding nbsp_def .

text \<open>The claim as stated, with three characters, fails at the no-break space, which is
  none of the three and is rewritten.\<close>

theorem escapeHtml_nbsp:
  "CHR 0xA0 \<notin> set ''&<>'' \<and> escapeHtml [CHR 0xA0] = ''&nbsp;'' \<and>
   escapeHtml [CHR 0xA0] \<noteq> [CHR 0xA0]"
  by (simp add: escapeHtml_charwise nbsp_def)


section \<open>The difference highlighter keeps both texts\<close>

lemma escapeHtml_no_lt: "CHR ''<'' \<notin> set (escapeHtml s)"
  unfolding escapeHtml_charwise by (induction s) (auto simp: nbsp_def)

lemma strip_markers_plain:
  "CHR ''<'' \<notin> set e \<Longrightarrow> strip_markers (e @ r) = e @ strip_markers r"
  by (induction e) (auto simp: removed_open_def added_open_def span_close_def)

lemma strip_markers_removed: "strip_markers (removed_open @ r) = strip_markers r"
  by (simp add: removed_open_def)

lemma strip_markers_added: "strip_markers (added_open @ r) = strip_markers r"
  by (simp add: removed_open_def added_open_def)

lemma strip_markers_close: "strip_markers (span_close @ r) = strip_markers r"
  by (simp add: removed_open_def added_open_def span_close_def)


lemma highlight_step_appends:
  "highlight_step w1 w2 i (a, b) =
     (a @ fst (highlight_step w1 w2 i ([], [])), b @ snd (highlight_step w1 w2 i ([], [])))"
  by (simp add: highlight_step_def Let_def)

lemma fold_highlight_appends:
  "fold (highlight_step w1 w2) xs (a, b) =
     (a @ fst (fold (highlight_step w1 w2) xs ([], [])),
      b @ snd (fold (highlight_step w1 w2) xs ([], [])))"
proof (induction xs arbitrary: a b)
  case Nil
  show ?case by simp
next
  case (Cons x xs)
  obtain p q where pq: "highlight_step w1 w2 x ([], []) = (p, q)" by (cases "highlight_step w1 w2 x ([], [])")
  have st: "highlight_step w1 w2 x (a, b) = (a @ p, b @ q)"
    using highlight_step_appends [of w1 w2 x a b] pq by simp
  have "fold (highlight_step w1 w2) (x # xs) (a, b) = fold (highlight_step w1 w2) xs (a @ p, b @ q)"
    using st by simp
  also have "\<dots> = ((a @ p) @ fst (fold (highlight_step w1 w2) xs ([], [])),
                   (b @ q) @ snd (fold (highlight_step w1 w2) xs ([], [])))"
    by (rule Cons.IH)
  finally have lhs: "fold (highlight_step w1 w2) (x # xs) (a, b) =
      (a @ p @ fst (fold (highlight_step w1 w2) xs ([], [])),
       b @ q @ snd (fold (highlight_step w1 w2) xs ([], [])))" by simp
  have "fold (highlight_step w1 w2) (x # xs) ([], []) = fold (highlight_step w1 w2) xs (p, q)"
    using pq by simp
  also have "\<dots> = (p @ fst (fold (highlight_step w1 w2) xs ([], [])),
                   q @ snd (fold (highlight_step w1 w2) xs ([], [])))"
    by (rule Cons.IH)
  finally show ?case using lhs by simp
qed

lemma strip_step_fst:
  "strip_markers (fst (highlight_step w1 w2 i ([], [])) @ r) =
     escapeHtml (word_at w1 i) @ strip_markers r"
  by (simp add: highlight_step_def Let_def strip_markers_removed strip_markers_close
      strip_markers_plain escapeHtml_no_lt escapeHtml_charwise)

lemma strip_step_snd:
  "strip_markers (snd (highlight_step w1 w2 i ([], [])) @ r) =
     escapeHtml (word_at w2 i) @ strip_markers r"
  by (simp add: highlight_step_def Let_def strip_markers_added strip_markers_close
      strip_markers_plain escapeHtml_no_lt escapeHtml_charwise)

lemma strip_fold_fst:
  "strip_markers (fst (fold (highlight_step w1 w2) xs ([], []))) =
     escapeHtml (concat (map (word_at w1) xs))"
proof (induction xs)
  case Nil
  show ?case by (simp add: escapeHtml_charwise)
next
  case (Cons x xs)
  have "fold (highlight_step w1 w2) (x # xs) ([], []) =
        fold (highlight_step w1 w2) xs (highlight_step w1 w2 x ([], []))" by simp
  also have "\<dots> = (fst (highlight_step w1 w2 x ([], [])) @ fst (fold (highlight_step w1 w2) xs ([], [])),
                   snd (highlight_step w1 w2 x ([], [])) @ snd (fold (highlight_step w1 w2) xs ([], [])))"
    using fold_highlight_appends [of w1 w2 xs "fst (highlight_step w1 w2 x ([], []))"
        "snd (highlight_step w1 w2 x ([], []))"] by simp
  finally show ?case using Cons.IH by (simp add: strip_step_fst escapeHtml_append)
qed

lemma strip_fold_snd:
  "strip_markers (snd (fold (highlight_step w1 w2) xs ([], []))) =
     escapeHtml (concat (map (word_at w2) xs))"
proof (induction xs)
  case Nil
  show ?case by (simp add: escapeHtml_charwise)
next
  case (Cons x xs)
  have "fold (highlight_step w1 w2) (x # xs) ([], []) =
        fold (highlight_step w1 w2) xs (highlight_step w1 w2 x ([], []))" by simp
  also have "\<dots> = (fst (highlight_step w1 w2 x ([], [])) @ fst (fold (highlight_step w1 w2) xs ([], [])),
                   snd (highlight_step w1 w2 x ([], [])) @ snd (fold (highlight_step w1 w2) xs ([], [])))"
    using fold_highlight_appends [of w1 w2 xs "fst (highlight_step w1 w2 x ([], []))"
        "snd (highlight_step w1 w2 x ([], []))"] by simp
  finally show ?case using Cons.IH by (simp add: strip_step_snd escapeHtml_append)
qed

lemma words_upto:
  assumes "length ws \<le> n"
  shows "concat (map (word_at ws) [0..<n]) = concat ws"
proof -
  have split: "[0..<n] = [0..<length ws] @ [length ws..<n]"
    using assms by (metis le_add_diff_inverse upt_add_eq_append zero_le)
  have inside: "map (word_at ws) [0..<length ws] = ws"
    by (rule nth_equalityI) (auto simp: word_at_def)
  have outside: "concat (map (word_at ws) [length ws..<n]) = []"
    by (auto simp: word_at_def)
  show ?thesis unfolding split using inside outside by simp
qed

text \<open>The specification's example: \<open>a b\<close> against \<open>a c\<close>.\<close>

lemma highlight_example:
  "highlightDifferences ''a b'' ''a c'' =
     (''a '' @ removed_open @ ''b'' @ span_close, ''a '' @ added_open @ ''c'' @ span_close)"
  by (simp add: highlightDifferences_def split_spaces_def is_space_def highlight_step_def
      word_at_def escapeHtml_charwise nbsp_def upt_rec Let_def
      removed_open_def added_open_def span_close_def)

text \<open>
  Claim C3. For every two texts, the first output of \<open>highlightDifferences\<close> with the
  removed and added markers stripped is the escaped first text, and the second output
  stripped is the escaped second text: every character of both inputs is kept, escaped.
\<close>

theorem highlight_preserves_text:
  "strip_markers (fst (highlightDifferences text1 text2)) = escapeHtml text1 \<and>
   strip_markers (snd (highlightDifferences text1 text2)) = escapeHtml text2"
  by (simp add: highlightDifferences_def Let_def strip_fold_fst strip_fold_snd words_upto
      tokens_rebuild_text)


section \<open>The normalizer\<close>

lemma ebind_Inr [simp]: "ebind (Inr v) f = f v"
  by (simp add: ebind_def)

lemma ebind_Inl [simp]: "ebind (Inl e) f = Inl e"
  by (simp add: ebind_def)

lemma ebind_Inr_iff: "(ebind m f = Inr r) = (\<exists>v. m = Inr v \<and> f v = Inr r)"
  by (cases m) simp_all

lemma ebind_Inl_iff: "(ebind m f = Inl e) = (m = Inl e \<or> (\<exists>v. m = Inr v \<and> f v = Inl e))"
  by (cases m) simp_all

lemma get_prop_ok: "data \<noteq> JNull \<Longrightarrow> data \<noteq> JUndefined \<Longrightarrow> \<exists>v. get_prop data k = Inr v"
  by (cases data) auto

lemma get_prop_truthy: "truthy N v \<Longrightarrow> \<exists>x. get_prop v k = Inr x"
  by (cases v) auto

lemma get_index0_truthy: "truthy N v \<Longrightarrow> \<exists>x. get_index0 v = Inr x"
  by (cases v) auto

lemma get_prop_truthy_source: "get_prop v k = Inr x \<Longrightarrow> truthy N x \<Longrightarrow> truthy N v"
  by (cases v) auto

lemma get_index0_truthy_source: "get_index0 v = Inr x \<Longrightarrow> truthy N x \<Longrightarrow> truthy N v"
  by (cases v) (auto split: list.splits)

lemma get_prop_defined: "get_prop v k = Inr x \<Longrightarrow> v \<noteq> JNull \<and> v \<noteq> JUndefined"
  by (cases v) auto

lemma shape_tests_total:
  assumes "data \<noteq> JNull" "data \<noteq> JUndefined"
  shows "\<exists>a. shapeA_test N data = Inr a" and "\<exists>b. shapeB_test N data = Inr b"
proof -
  obtain c where c: "get_prop data ''choices'' = Inr c" using get_prop_ok [OF assms] by blast
  show "\<exists>a. shapeA_test N data = Inr a"
  proof (cases "truthy N c")
    case False
    then show ?thesis by (auto simp: shapeA_test_def ebind_def c)
  next
    case True
    then obtain e where e: "get_index0 c = Inr e" using get_index0_truthy by blast
    show ?thesis
    proof (cases "truthy N e")
      case False
      then show ?thesis using True by (auto simp: shapeA_test_def ebind_def c e)
    next
      case te: True
      then obtain m where m: "get_prop e ''message'' = Inr m" using get_prop_truthy by blast
      show ?thesis using True te by (simp add: shapeA_test_def ebind_def c e m)
    qed
  qed
  obtain d where d: "get_prop data ''content'' = Inr d" using get_prop_ok [OF assms] by blast
  show "\<exists>b. shapeB_test N data = Inr b"
  proof (cases "truthy N d")
    case False
    then show ?thesis by (auto simp: shapeB_test_def ebind_def d)
  next
    case True
    then obtain e where e: "get_index0 d = Inr e" using get_index0_truthy by blast
    show ?thesis
    proof (cases "truthy N e")
      case False
      then show ?thesis using True by (auto simp: shapeB_test_def ebind_def d e)
    next
      case te: True
      then obtain m where m: "get_prop e ''text'' = Inr m" using get_prop_truthy by blast
      show ?thesis using True te by (simp add: shapeB_test_def ebind_def d e m)
    qed
  qed
qed

lemma shapeA_test_True:
  assumes "get_prop data ''choices'' = Inr cs" and "get_index0 cs = Inr c0"
    and "get_prop c0 ''message'' = Inr m" and "truthy N m"
  shows "shapeA_test N data = Inr True"
proof -
  have c0: "truthy N c0" using assms(3,4) by (rule get_prop_truthy_source)
  have cs: "truthy N cs" using assms(2) c0 by (rule get_index0_truthy_source)
  show ?thesis using assms c0 cs by (simp add: shapeA_test_def ebind_def)
qed

lemma shapeB_test_True:
  assumes "get_prop data ''content'' = Inr cs" and "get_index0 cs = Inr c0"
    and "get_prop c0 ''text'' = Inr t" and "truthy N t"
  shows "shapeB_test N data = Inr True"
proof -
  have c0: "truthy N c0" using assms(3,4) by (rule get_prop_truthy_source)
  have cs: "truthy N cs" using assms(2) c0 by (rule get_index0_truthy_source)
  show ?thesis using assms c0 cs by (simp add: shapeB_test_def ebind_def)
qed

lemma shapeA_test_TrueD:
  assumes "shapeA_test N data = Inr True"
  shows "\<exists>cs c0 m. get_prop data ''choices'' = Inr cs \<and> get_index0 cs = Inr c0 \<and>
           get_prop c0 ''message'' = Inr m \<and> truthy N m"
  using assms by (auto simp: shapeA_test_def ebind_Inr_iff split: if_splits)

lemma shapeB_test_TrueD:
  assumes "shapeB_test N data = Inr True"
  shows "\<exists>cs c0 t. get_prop data ''content'' = Inr cs \<and> get_index0 cs = Inr c0 \<and>
           get_prop c0 ''text'' = Inr t \<and> truthy N t"
  using assms by (auto simp: shapeB_test_def ebind_Inr_iff split: if_splits)

lemma usage_openai_total:
  assumes "data \<noteq> JNull" and "data \<noteq> JUndefined"
  shows "\<exists>p q t. usage_openai N data = Inr (p, q, t)"
proof -
  obtain u where u: "get_prop data ''usage'' = Inr u" using get_prop_ok [OF assms] by blast
  show ?thesis
  proof (cases "truthy N u")
    case False
    then show ?thesis by (simp add: usage_openai_def ebind_def u)
  next
    case True
    obtain p where p: "get_prop u ''prompt_tokens'' = Inr p" using get_prop_truthy [OF True] by blast
    obtain q where q: "get_prop u ''completion_tokens'' = Inr q" using get_prop_truthy [OF True] by blast
    obtain t where t: "get_prop u ''total_tokens'' = Inr t" using get_prop_truthy [OF True] by blast
    show ?thesis using True by (simp add: usage_openai_def ebind_def u p q t)
  qed
qed

lemma to_string_error:
  "to_string N v = Inl e \<Longrightarrow> e = TypeError NotPrimitive"
  "join_elements N xs = Inl e \<Longrightarrow> e = TypeError NotPrimitive"
  by (induction N v and N xs rule: to_string_join_elements.induct)
     (auto simp: ebind_def split: option.splits sum.splits jsval.splits if_splits)

lemma to_primitive_error: "to_primitive N v = Inl e \<Longrightarrow> e = TypeError NotPrimitive"
  by (cases v) (auto simp: ebind_def split: sum.splits option.splits dest: to_string_error(2))

lemma to_primitive_primitive: "primitive v \<Longrightarrow> to_primitive N v = Inr v"
  by (cases v) auto

lemma to_string_primitive: "primitive v \<Longrightarrow> \<exists>s. to_string N v = Inr s"
  by (cases v) auto

lemma js_add_error:
  assumes "js_add N a b = Inl e"
  shows "e = TypeError NotPrimitive"
proof (cases "to_primitive N a")
  case (Inl x)
  then show ?thesis using assms to_primitive_error [of N a x] by (simp add: js_add_def ebind_def)
next
  case pa: (Inr pa)
  show ?thesis
  proof (cases "to_primitive N b")
    case (Inl x)
    then show ?thesis using assms pa to_primitive_error [of N b x]
      by (simp add: js_add_def ebind_def)
  next
    case pb: (Inr pb)
    show ?thesis
    proof (cases "to_string N pa")
      case (Inl x)
      then have "x = TypeError NotPrimitive" by (rule to_string_error(1))
      with assms pa pb Inl show ?thesis
        by (simp add: js_add_def ebind_def split: option.splits)
    next
      case sa: (Inr sa)
      show ?thesis
      proof (cases "to_string N pb")
        case (Inl x)
        then have "x = TypeError NotPrimitive" by (rule to_string_error(1))
        with assms pa pb sa Inl show ?thesis
          by (simp add: js_add_def ebind_def split: option.splits)
      next
        case (Inr sb)
        with assms pa pb sa show ?thesis
          by (simp add: js_add_def ebind_def split: option.splits)
      qed
    qed
  qed
qed

lemma js_add_primitive:
  assumes "primitive a" and "primitive b"
  shows "\<exists>v. js_add N a b = Inr v"
proof -
  obtain sa sb where "to_string N a = Inr sa" "to_string N b = Inr sb"
    using to_string_primitive assms by blast
  then show ?thesis using assms
    by (auto simp: js_add_def ebind_def to_primitive_primitive split: option.splits)
qed

lemma js_add_numbers: "js_add N (JNum a) (JNum b) = Inr (JNum (n_add N a b))"
  by (simp add: js_add_def ebind_def)

lemma js_or_primitive: "primitive a \<Longrightarrow> primitive (js_or N a (JNum z))"
  by (simp add: js_or_def)

lemma usage_anthropic_error:
  assumes "usage_anthropic N data = Inl e" and "data \<noteq> JNull" and "data \<noteq> JUndefined"
  shows "e = TypeError NotPrimitive"
proof -
  obtain u where u: "get_prop data ''usage'' = Inr u" using get_prop_ok [OF assms(2,3)] by blast
  show ?thesis
  proof (cases "truthy N u")
    case False
    then show ?thesis using assms(1) by (simp add: usage_anthropic_def ebind_def u)
  next
    case True
    obtain p where p: "get_prop u ''input_tokens'' = Inr p" using get_prop_truthy [OF True] by blast
    obtain q where q: "get_prop u ''output_tokens'' = Inr q" using get_prop_truthy [OF True] by blast
    have "js_add N (js_or N p (JNum (n_zero N))) (js_or N q (JNum (n_zero N))) = Inl e"
      using assms(1) True by (simp add: usage_anthropic_def u p q Let_def ebind_Inl_iff)
    then show ?thesis by (rule js_add_error)
  qed
qed

lemma usage_anthropic_primitive:
  assumes "get_prop data ''usage'' = Inr u"
    and "truthy N u \<longrightarrow> (\<exists>p q. get_prop u ''input_tokens'' = Inr p \<and>
           get_prop u ''output_tokens'' = Inr q \<and> primitive p \<and> primitive q)"
  shows "\<exists>p q t. usage_anthropic N data = Inr (p, q, t)"
proof (cases "truthy N u")
  case False
  then show ?thesis by (simp add: usage_anthropic_def ebind_def assms(1))
next
  case True
  then obtain p q where pq: "get_prop u ''input_tokens'' = Inr p"
      "get_prop u ''output_tokens'' = Inr q" "primitive p" "primitive q"
    using assms(2) by blast
  have "primitive (js_or N p (JNum (n_zero N)))" "primitive (js_or N q (JNum (n_zero N)))"
    using pq(3,4) by (simp_all add: js_or_primitive)
  then obtain t where t: "js_add N (js_or N p (JNum (n_zero N))) (js_or N q (JNum (n_zero N))) = Inr t"
    using js_add_primitive by blast
  show ?thesis using True pq(1,2)
    by (simp add: usage_anthropic_def assms(1) Let_def t)
qed

lemma normalize_InrD:
  assumes "normalize N data = Inr r"
  shows "(shapeA_test N data = Inr True \<and>
          usage_openai N data = Inr (promptTokens r, completionTokens r, totalTokens r)) \<or>
         (shapeA_test N data = Inr False \<and> shapeB_test N data = Inr True \<and>
          usage_anthropic N data = Inr (promptTokens r, completionTokens r, totalTokens r))"
  using assms
  by (auto simp: normalize_def ebind_Inr_iff split: if_splits)

lemma usage_openai_InrD:
  assumes "usage_openai N data = Inr (p, q, t)"
  shows "\<exists>u. get_prop data ''usage'' = Inr u \<and>
           (if truthy N u
            then \<exists>p' q' t'. get_prop u ''prompt_tokens'' = Inr p' \<and>
                   get_prop u ''completion_tokens'' = Inr q' \<and>
                   get_prop u ''total_tokens'' = Inr t' \<and>
                   p = js_or N p' (JNum (n_zero N)) \<and> q = js_or N q' (JNum (n_zero N)) \<and>
                   t = js_or N t' (JNum (n_zero N))
            else p = JNum (n_zero N) \<and> q = JNum (n_zero N) \<and> t = JNum (n_zero N))"
  using assms
  by (auto simp: usage_openai_def ebind_Inr_iff split: if_splits)

lemma usage_anthropic_InrD:
  assumes "usage_anthropic N data = Inr (p, q, t)"
  shows "\<exists>u. get_prop data ''usage'' = Inr u \<and>
           (if truthy N u
            then \<exists>p' q'. get_prop u ''input_tokens'' = Inr p' \<and>
                   get_prop u ''output_tokens'' = Inr q' \<and>
                   p = js_or N p' (JNum (n_zero N)) \<and> q = js_or N q' (JNum (n_zero N)) \<and>
                   js_add N p q = Inr t
            else p = JNum (n_zero N) \<and> q = JNum (n_zero N) \<and> t = JNum (n_zero N))"
  using assms
  by (auto simp: usage_anthropic_def ebind_Inr_iff Let_def split: if_splits)

text \<open>The specification's two examples of accepted payloads.\<close>

lemma normalize_examples:
  "normalize small_integers
     (JObj [(''choices'', JArr [JObj [(''message'', JObj [(''content'', JStr ''hi'')])]]),
            (''usage'', JObj [(''prompt_tokens'', JNum (Some 3)), (''completion_tokens'', JNum (Some 2)),
                              (''total_tokens'', JNum (Some 5))])])
     = Inr \<lparr>content = JStr ''hi'', promptTokens = JNum (Some 3),
            completionTokens = JNum (Some 2), totalTokens = JNum (Some 5)\<rparr>"
  "normalize small_integers
     (JObj [(''content'', JArr [JObj [(''text'', JStr ''hi'')]]),
            (''usage'', JObj [(''input_tokens'', JNum (Some 3)), (''output_tokens'', JNum (Some 2))])])
     = Inr \<lparr>content = JStr ''hi'', promptTokens = JNum (Some 3),
            completionTokens = JNum (Some 2), totalTokens = JNum (Some 5)\<rparr>"
  by (simp_all add: normalize_def shapeA_test_def shapeB_test_def usage_openai_def
      usage_anthropic_def js_or_def js_add_def small_integers_def)

text \<open>
  Claim C1, amended. For every payload the normalizer accepts: in the OpenAI branch
  \<open>totalTokens\<close> is the \<open>total_tokens\<close> of the usage object when that value is present and
  truthy, and 0 otherwise (no usage object, or one without \<open>total_tokens\<close>); it is never
  derived from the two components. In the Anthropic branch \<open>totalTokens\<close> is
  \<open>promptTokens + completionTokens\<close> as the engine's \<open>+\<close> computes it (its sum of the two
  numbers when both are numbers) when there is a usage object, and 0, like the two
  components, when there is none.
\<close>

theorem totalTokens_origin:
  assumes "normalize N data = Inr r"
  shows "(shapeA_test N data = Inr True \<and>
          (\<exists>u. get_prop data ''usage'' = Inr u \<and>
             (if truthy N u
              then \<exists>t. get_prop u ''total_tokens'' = Inr t \<and>
                     totalTokens r = (if truthy N t then t else JNum (n_zero N))
              else totalTokens r = JNum (n_zero N)))) \<or>
         (shapeA_test N data = Inr False \<and> shapeB_test N data = Inr True \<and>
          (\<exists>u. get_prop data ''usage'' = Inr u \<and>
             (if truthy N u
              then js_add N (promptTokens r) (completionTokens r) = Inr (totalTokens r) \<and>
                   (\<forall>a b. promptTokens r = JNum a \<and> completionTokens r = JNum b \<longrightarrow>
                          totalTokens r = JNum (n_add N a b))
              else promptTokens r = JNum (n_zero N) \<and> completionTokens r = JNum (n_zero N) \<and>
                   totalTokens r = JNum (n_zero N))))"
proof -
  from normalize_InrD [OF assms] show ?thesis
  proof
    assume a: "shapeA_test N data = Inr True \<and>
          usage_openai N data = Inr (promptTokens r, completionTokens r, totalTokens r)"
    then have "\<exists>u. get_prop data ''usage'' = Inr u \<and>
             (if truthy N u
              then \<exists>t. get_prop u ''total_tokens'' = Inr t \<and>
                     totalTokens r = (if truthy N t then t else JNum (n_zero N))
              else totalTokens r = JNum (n_zero N))"
      using usage_openai_InrD [of N data "promptTokens r" "completionTokens r" "totalTokens r"]
      by (auto simp: js_or_def split: if_splits)
    with a show ?thesis by blast
  next
    assume b: "shapeA_test N data = Inr False \<and> shapeB_test N data = Inr True \<and>
          usage_anthropic N data = Inr (promptTokens r, completionTokens r, totalTokens r)"
    then obtain u where u: "get_prop data ''usage'' = Inr u"
      and body: "if truthy N u
            then \<exists>p' q'. get_prop u ''input_tokens'' = Inr p' \<and>
                   get_prop u ''output_tokens'' = Inr q' \<and>
                   promptTokens r = js_or N p' (JNum (n_zero N)) \<and>
                   completionTokens r = js_or N q' (JNum (n_zero N)) \<and>
                   js_add N (promptTokens r) (completionTokens r) = Inr (totalTokens r)
            else promptTokens r = JNum (n_zero N) \<and> completionTokens r = JNum (n_zero N) \<and>
                 totalTokens r = JNum (n_zero N)"
      using usage_anthropic_InrD [of N data "promptTokens r" "completionTokens r" "totalTokens r"]
      by blast
    have "if truthy N u
          then js_add N (promptTokens r) (completionTokens r) = Inr (totalTokens r) \<and>
               (\<forall>a b. promptTokens r = JNum a \<and> completionTokens r = JNum b \<longrightarrow>
                      totalTokens r = JNum (n_add N a b))
          else promptTokens r = JNum (n_zero N) \<and> completionTokens r = JNum (n_zero N) \<and>
               totalTokens r = JNum (n_zero N)"
    proof (cases "truthy N u")
      case False
      then show ?thesis using body by simp
    next
      case True
      then have s: "js_add N (promptTokens r) (completionTokens r) = Inr (totalTokens r)"
        using body by auto
      then have "\<forall>a b. promptTokens r = JNum a \<and> completionTokens r = JNum b \<longrightarrow>
                      totalTokens r = JNum (n_add N a b)"
        by (auto simp: js_add_numbers)
      with s True show ?thesis by simp
    qed
    with b u show ?thesis by blast
  qed
qed

theorem totalTokens_origin_witness:
  "normalize small_integers
     (JObj [(''content'', JArr [JObj [(''text'', JStr ''hi'')]]),
            (''usage'', JObj [(''input_tokens'', JNum (Some 3)), (''output_tokens'', JNum (Some 2))])])
     = Inr \<lparr>content = JStr ''hi'', promptTokens = JNum (Some 3),
            completionTokens = JNum (Some 2), totalTokens = JNum (Some 5)\<rparr> \<and>
   js_add small_integers (JNum (Some 3)) (JNum (Some 2)) = Inr (JNum (Some 5))"
  using totalTokens_origin
    [of small_integers
        "JObj [(''content'', JArr [JObj [(''text'', JStr ''hi'')]]),
               (''usage'', JObj [(''input_tokens'', JNum (Some 3)), (''output_tokens'', JNum (Some 2))])]"
        "\<lparr>content = JStr ''hi'', promptTokens = JNum (Some 3),
          completionTokens = JNum (Some 2), totalTokens = JNum (Some 5)\<rparr>"]
  by (simp add: normalize_def shapeA_test_def shapeB_test_def usage_anthropic_def
      js_or_def js_add_def small_integers_def)

text \<open>
  The claim as stated fails on a payload of the choice shape whose usage object omits
  \<open>total_tokens\<close>: the total is 0, which the usage object did not supply and which is not
  the sum of the components 3 and 2.
\<close>

theorem totalTokens_missing_total:
  "normalize small_integers
     (JObj [(''choices'', JArr [JObj [(''message'', JObj [(''content'', JStr ''hi'')])]]),
            (''usage'', JObj [(''prompt_tokens'', JNum (Some 3)),
                              (''completion_tokens'', JNum (Some 2))])])
     = Inr \<lparr>content = JStr ''hi'', promptTokens = JNum (Some 3),
            completionTokens = JNum (Some 2), totalTokens = JNum (Some 0)\<rparr> \<and>
   get_prop (JObj [(''prompt_tokens'', JNum (Some 3)), (''completion_tokens'', JNum (Some (2::int)))])
     ''total_tokens'' = Inr JUndefined \<and>
   js_add small_integers (JNum (Some 3)) (JNum (Some 2)) = Inr (JNum (Some 5)) \<and>
   JNum (Some (0::int)) \<noteq> JNum (Some 5)"
  by (simp add: normalize_def shapeA_test_def usage_openai_def js_or_def js_add_def
      small_integers_def)

text \<open>
  Claim C2, amended. For every payload that fails the test of the OpenAI shape and whose
  \<open>content\<close> has a first element carrying a non-empty \<open>text\<close> string, the record the
  normalizer returns has that string as its content, and the normalizer returns one
  unless adding the two usage counters throws: it does when there is no usage object or
  both counters are primitive values, and the only error it can throw is the TypeError of
  a counter that has no primitive value.
\<close>

theorem shapeB_text_is_content:
  assumes "shapeA_test N data = Inr False"
    and "get_prop data ''content'' = Inr cs" and "get_index0 cs = Inr c0"
    and "get_prop c0 ''text'' = Inr (JStr s)" and "s \<noteq> []"
  shows "(\<forall>p q t. usage_anthropic N data = Inr (p, q, t) \<longrightarrow>
            normalize N data =
              Inr \<lparr>content = JStr s, promptTokens = p, completionTokens = q, totalTokens = t\<rparr>) \<and>
         (\<forall>e. usage_anthropic N data = Inl e \<longrightarrow>
            e = TypeError NotPrimitive \<and> normalize N data = Inl e) \<and>
         (\<forall>u. get_prop data ''usage'' = Inr u \<and>
              (truthy N u \<longrightarrow>
                 (\<exists>p q. get_prop u ''input_tokens'' = Inr p \<and>
                        get_prop u ''output_tokens'' = Inr q \<and> primitive p \<and> primitive q)) \<longrightarrow>
            (\<exists>r. normalize N data = Inr r \<and> content r = JStr s))"
proof -
  have b: "shapeB_test N data = Inr True"
    using assms(2-4) by (rule shapeB_test_True) (simp add: assms(5))
  have n: "normalize N data =
      ebind (usage_anthropic N data) (\<lambda>(p, q, t).
        Inr \<lparr>content = JStr s, promptTokens = p, completionTokens = q, totalTokens = t\<rparr>)"
    using assms b by (simp add: normalize_def)
  have one: "\<forall>p q t. usage_anthropic N data = Inr (p, q, t) \<longrightarrow>
            normalize N data =
              Inr \<lparr>content = JStr s, promptTokens = p, completionTokens = q, totalTokens = t\<rparr>"
    by (simp add: n)
  have two: "\<forall>e. usage_anthropic N data = Inl e \<longrightarrow>
            e = TypeError NotPrimitive \<and> normalize N data = Inl e"
    using usage_anthropic_error get_prop_defined [OF assms(2)] by (auto simp: n)
  have three: "\<forall>u. get_prop data ''usage'' = Inr u \<and>
              (truthy N u \<longrightarrow>
                 (\<exists>p q. get_prop u ''input_tokens'' = Inr p \<and>
                        get_prop u ''output_tokens'' = Inr q \<and> primitive p \<and> primitive q)) \<longrightarrow>
            (\<exists>r. normalize N data = Inr r \<and> content r = JStr s)"
  proof (intro allI impI)
    fix u
    assume h: "get_prop data ''usage'' = Inr u \<and>
              (truthy N u \<longrightarrow>
                 (\<exists>p q. get_prop u ''input_tokens'' = Inr p \<and>
                        get_prop u ''output_tokens'' = Inr q \<and> primitive p \<and> primitive q))"
    then obtain p q t where "usage_anthropic N data = Inr (p, q, t)"
      using usage_anthropic_primitive [of data u N] by blast
    then show "\<exists>r. normalize N data = Inr r \<and> content r = JStr s"
      by (simp add: n)
  qed
  from one two three show ?thesis by blast
qed

theorem shapeB_text_is_content_witness:
  "shapeA_test small_integers
     (JObj [(''content'', JArr [JObj [(''text'', JStr ''hi'')]]),
            (''usage'', JObj [(''input_tokens'', JNum (Some 3)), (''output_tokens'', JNum (Some 2))])])
     = Inr False \<and>
   (\<exists>r. normalize small_integers
          (JObj [(''content'', JArr [JObj [(''text'', JStr ''hi'')]]),
                 (''usage'', JObj [(''input_tokens'', JNum (Some 3)),
                                   (''output_tokens'', JNum (Some 2))])])
          = Inr r \<and> content r = JStr ''hi'')"
  using shapeB_text_is_content
    [of small_integers
        "JObj [(''content'', JArr [JObj [(''text'', JStr ''hi'')]]),
               (''usage'', JObj [(''input_tokens'', JNum (Some 3)), (''output_tokens'', JNum (Some 2))])]"
        "JArr [JObj [(''text'', JStr ''hi'')]]" "JObj [(''text'', JStr ''hi'')]" "''hi''"]
  by (simp add: shapeA_test_def)

text \<open>
  The claim as stated fails on three payloads of the block shape. When the text is the
  empty string, the test \<open>data.content[0].text\<close> is falsy and the normalizer throws the
  format error. When the payload has a \<open>choices\<close> list with a message as well, the content
  is the message's, not the text. When a usage counter is an object with an own property
  \<open>toString\<close>, adding the counters throws a TypeError.
\<close>

theorem shapeB_empty_text_and_both_shapes:
  "ebind (ebind (get_prop (JObj [(''content'', JArr [JObj [(''text'', JStr [])]])]) ''content'')
            get_index0) (\<lambda>e. get_prop e ''text'') = Inr (JStr []) \<and>
   normalize small_integers (JObj [(''content'', JArr [JObj [(''text'', JStr [])]])]) =
     Inl (Error ''Unexpected response format'') \<and>
   ebind (ebind (get_prop (JObj [(''choices'', JArr [JObj [(''message'', JObj [(''content'', JStr ''a'')])]]),
                                 (''content'', JArr [JObj [(''text'', JStr ''b'')]])]) ''content'')
            get_index0) (\<lambda>e. get_prop e ''text'') = Inr (JStr ''b'') \<and>
   normalize small_integers
     (JObj [(''choices'', JArr [JObj [(''message'', JObj [(''content'', JStr ''a'')])]]),
            (''content'', JArr [JObj [(''text'', JStr ''b'')]])]) =
     Inr \<lparr>content = JStr ''a'', promptTokens = JNum (Some 0), completionTokens = JNum (Some 0),
          totalTokens = JNum (Some 0)\<rparr> \<and>
   normalize small_integers
     (JObj [(''content'', JArr [JObj [(''text'', JStr ''hi'')]]),
            (''usage'', JObj [(''input_tokens'', JObj [(''toString'', JNum (Some 1))]),
                              (''output_tokens'', JNum (Some 2))])]) =
     Inl (TypeError NotPrimitive)"
  by (simp add: normalize_def shapeA_test_def shapeB_test_def usage_openai_def
      usage_anthropic_def js_or_def js_add_def small_integers_def)

text \<open>
  Claim C6, amended. For every decoded payload other than \<open>null\<close> whose first choice
  carries no message (none at all, or a falsy one) and whose first content block carries
  no text (none at all, or a falsy value that is not a string), the empty object among
  them, the normalizer throws the error \<open>Unexpected response format\<close> and returns no
  record.
\<close>

theorem unrecognised_is_format_error:
  assumes "data \<noteq> JNull" and "data \<noteq> JUndefined"
    and "\<forall>cs c0 m. get_prop data ''choices'' = Inr cs \<and> get_index0 cs = Inr c0 \<and>
           get_prop c0 ''message'' = Inr m \<longrightarrow> \<not> truthy N m"
    and "\<forall>cs c0 t. get_prop data ''content'' = Inr cs \<and> get_index0 cs = Inr c0 \<and>
           get_prop c0 ''text'' = Inr t \<longrightarrow> \<not> truthy N t \<and> t \<noteq> JStr []"
  shows "normalize N data = Inl (Error ''Unexpected response format'')"
proof -
  obtain a b where ab: "shapeA_test N data = Inr a" "shapeB_test N data = Inr b"
    using shape_tests_total [OF assms(1,2)] by blast
  have "\<not> a"
  proof
    assume a
    then have "shapeA_test N data = Inr True" using ab(1) by simp
    then obtain cs c0 m where "get_prop data ''choices'' = Inr cs" "get_index0 cs = Inr c0"
        "get_prop c0 ''message'' = Inr m" "truthy N m"
      using shapeA_test_TrueD by blast
    then show False using assms(3) by blast
  qed
  moreover have "\<not> b"
  proof
    assume b
    then have "shapeB_test N data = Inr True" using ab(2) by simp
    then obtain cs c0 t where "get_prop data ''content'' = Inr cs" "get_index0 cs = Inr c0"
        "get_prop c0 ''text'' = Inr t" "truthy N t"
      using shapeB_test_TrueD by blast
    then show False using assms(4) by blast
  qed
  ultimately show ?thesis using ab by (simp add: normalize_def)
qed

theorem unrecognised_is_format_error_witness:
  "normalize small_integers (JObj []) = Inl (Error ''Unexpected response format'') \<and>
   normalize small_integers
     (JObj [(''choices'', JArr [JObj [(''message'', JNull)]]),
            (''content'', JArr [JObj [(''text'', JBool False)]])])
     = Inl (Error ''Unexpected response format'')"
  using unrecognised_is_format_error [of "JObj []" small_integers]
    unrecognised_is_format_error
      [of "JObj [(''choices'', JArr [JObj [(''message'', JNull)]]),
                 (''content'', JArr [JObj [(''text'', JBool False)]])]" small_integers]
  by auto

text \<open>
  The claim as stated fails on a payload whose first choice carries a message object with
  no \<open>content\<close> string, and which has no \<open>content\<close> list either: it matches neither shape
  as the specification words them, and it is accepted, with the content \<open>undefined\<close>. It
  fails also on the payload \<open>null\<close>, where reading \<open>data.choices\<close> throws a TypeError
  before the last branch is reached.
\<close>

theorem normalize_loose_shape_and_null:
  "get_prop (JObj [] :: int option jsval) ''content'' = Inr JUndefined \<and>
   get_prop (JObj [(''choices'', JArr [JObj [(''message'', JObj [])]])] :: int option jsval)
     ''content'' = Inr JUndefined \<and>
   normalize small_integers (JObj [(''choices'', JArr [JObj [(''message'', JObj [])]])]) =
     Inr \<lparr>content = JUndefined, promptTokens = JNum (Some 0), completionTokens = JNum (Some 0),
          totalTokens = JNum (Some 0)\<rparr> \<and>
   normalize small_integers JNull = Inl (TypeError (PropertyOfNullish Null ''choices''))"
  by (simp add: normalize_def shapeA_test_def shapeB_test_def usage_openai_def
      small_integers_def)

text \<open>
  Claim C8, amended. For every payload the normalizer accepts, the three counters are 0
  when the payload has no usage object (or a falsy one). Otherwise \<open>promptTokens\<close> and
  \<open>completionTokens\<close>, and in the OpenAI branch \<open>totalTokens\<close>, are each the value the
  usage object supplies, or 0 where that value is missing or falsy; in the Anthropic branch
  \<open>totalTokens\<close> is what \<open>+\<close> makes of the other two. Nothing is checked: whatever holds
  of 0 and of every truthy value the usage object supplies (being a non-negative integer,
  say) holds of the counters that are copied.
\<close>

theorem token_counts:
  assumes "normalize N data = Inr r" and "get_prop data ''usage'' = Inr u"
  shows "(\<not> truthy N u \<longrightarrow>
            promptTokens r = JNum (n_zero N) \<and> completionTokens r = JNum (n_zero N) \<and>
            totalTokens r = JNum (n_zero N)) \<and>
         (truthy N u \<and> shapeA_test N data = Inr True \<longrightarrow>
            (\<exists>p q t. get_prop u ''prompt_tokens'' = Inr p \<and>
               get_prop u ''completion_tokens'' = Inr q \<and>
               get_prop u ''total_tokens'' = Inr t \<and>
               promptTokens r = js_or N p (JNum (n_zero N)) \<and>
               completionTokens r = js_or N q (JNum (n_zero N)) \<and>
               totalTokens r = js_or N t (JNum (n_zero N)))) \<and>
         (truthy N u \<and> shapeA_test N data = Inr False \<longrightarrow>
            (\<exists>p q. get_prop u ''input_tokens'' = Inr p \<and>
               get_prop u ''output_tokens'' = Inr q \<and>
               promptTokens r = js_or N p (JNum (n_zero N)) \<and>
               completionTokens r = js_or N q (JNum (n_zero N)) \<and>
               js_add N (promptTokens r) (completionTokens r) = Inr (totalTokens r))) \<and>
         (P (JNum (n_zero N)) \<and>
          (\<forall>k \<in> set [''prompt_tokens'', ''completion_tokens'', ''total_tokens'',
                      ''input_tokens'', ''output_tokens''].
             \<forall>v. truthy N u \<and> get_prop u k = Inr v \<and> truthy N v \<longrightarrow> P v) \<longrightarrow>
            P (promptTokens r) \<and> P (completionTokens r) \<and>
            (shapeA_test N data = Inr True \<longrightarrow> P (totalTokens r)))"
proof -
  have copied: "P (js_or N v (JNum (n_zero N)))"
    if "P (JNum (n_zero N))" and "truthy N v \<longrightarrow> P v" for v
    using that by (simp add: js_or_def)
  from normalize_InrD [OF assms(1)] show ?thesis
  proof
    assume a: "shapeA_test N data = Inr True \<and>
          usage_openai N data = Inr (promptTokens r, completionTokens r, totalTokens r)"
    then obtain u' where u': "get_prop data ''usage'' = Inr u'"
      and body: "if truthy N u'
            then \<exists>p' q' t'. get_prop u' ''prompt_tokens'' = Inr p' \<and>
                   get_prop u' ''completion_tokens'' = Inr q' \<and>
                   get_prop u' ''total_tokens'' = Inr t' \<and>
                   promptTokens r = js_or N p' (JNum (n_zero N)) \<and>
                   completionTokens r = js_or N q' (JNum (n_zero N)) \<and>
                   totalTokens r = js_or N t' (JNum (n_zero N))
            else promptTokens r = JNum (n_zero N) \<and> completionTokens r = JNum (n_zero N) \<and>
                 totalTokens r = JNum (n_zero N)"
      using usage_openai_InrD [of N data "promptTokens r" "completionTokens r" "totalTokens r"]
      by blast
    have uu: "u' = u" using u' assms(2) by simp
    show ?thesis
    proof (cases "truthy N u")
      case False
      then show ?thesis using body uu a by simp
    next
      case True
      then obtain p' q' t' where g: "get_prop u ''prompt_tokens'' = Inr p'"
          "get_prop u ''completion_tokens'' = Inr q'" "get_prop u ''total_tokens'' = Inr t'"
          "promptTokens r = js_or N p' (JNum (n_zero N))"
          "completionTokens r = js_or N q' (JNum (n_zero N))"
          "totalTokens r = js_or N t' (JNum (n_zero N))"
        using body uu by auto
      show ?thesis using True g a by (auto intro: copied)
    qed
  next
    assume b: "shapeA_test N data = Inr False \<and> shapeB_test N data = Inr True \<and>
          usage_anthropic N data = Inr (promptTokens r, completionTokens r, totalTokens r)"
    then obtain u' where u': "get_prop data ''usage'' = Inr u'"
      and body: "if truthy N u'
            then \<exists>p' q'. get_prop u' ''input_tokens'' = Inr p' \<and>
                   get_prop u' ''output_tokens'' = Inr q' \<and>
                   promptTokens r = js_or N p' (JNum (n_zero N)) \<and>
                   completionTokens r = js_or N q' (JNum (n_zero N)) \<and>
                   js_add N (promptTokens r) (completionTokens r) = Inr (totalTokens r)
            else promptTokens r = JNum (n_zero N) \<and> completionTokens r = JNum (n_zero N) \<and>
                 totalTokens r = JNum (n_zero N)"
      using usage_anthropic_InrD [of N data "promptTokens r" "completionTokens r" "totalTokens r"]
      by blast
    have uu: "u' = u" using u' assms(2) by simp
    show ?thesis
    proof (cases "truthy N u")
      case False
      then show ?thesis using body uu b by simp
    next
      case True
      then obtain p' q' where g: "get_prop u ''input_tokens'' = Inr p'"
          "get_prop u ''output_tokens'' = Inr q'"
          "promptTokens r = js_or N p' (JNum (n_zero N))"
          "completionTokens r = js_or N q' (JNum (n_zero N))"
          "js_add N (promptTokens r) (completionTokens r) = Inr (totalTokens r)"
        using body uu by auto
      show ?thesis using True g b by (auto intro: copied)
    qed
  qed
qed

theorem token_counts_witness:
  "normalize small_integers
     (JObj [(''choices'', JArr [JObj [(''message'', JObj [(''content'', JStr ''hi'')])]]),
            (''usage'', JObj [(''prompt_tokens'', JNum (Some 3)), (''completion_tokens'', JNum (Some 2)),
                              (''total_tokens'', JNum (Some 5))])])
     = Inr \<lparr>content = JStr ''hi'', promptTokens = JNum (Some 3),
            completionTokens = JNum (Some 2), totalTokens = JNum (Some 5)\<rparr> \<and>
   is_count (JNum (Some 3)) \<and> is_count (JNum (Some 2)) \<and> is_count (JNum (Some 5))"
  using token_counts
    [of small_integers
        "JObj [(''choices'', JArr [JObj [(''message'', JObj [(''content'', JStr ''hi'')])]]),
               (''usage'', JObj [(''prompt_tokens'', JNum (Some 3)), (''completion_tokens'', JNum (Some 2)),
                                 (''total_tokens'', JNum (Some 5))])]"
        "\<lparr>content = JStr ''hi'', promptTokens = JNum (Some 3),
          completionTokens = JNum (Some 2), totalTokens = JNum (Some 5)\<rparr>"
        "JObj [(''prompt_tokens'', JNum (Some 3)), (''completion_tokens'', JNum (Some 2)),
               (''total_tokens'', JNum (Some 5))]"
        is_count]
  by (simp add: normalize_def shapeA_test_def usage_openai_def js_or_def small_integers_def)

text \<open>
  The claim as stated fails on a payload whose usage object carries negative numbers: they
  are copied into the record.
\<close>

theorem token_counts_negative:
  "normalize small_integers
     (JObj [(''choices'', JArr [JObj [(''message'', JObj [(''content'', JStr ''hi'')])]]),
            (''usage'', JObj [(''prompt_tokens'', JNum (Some (- 5))),
                              (''completion_tokens'', JNum (Some 2)),
                              (''total_tokens'', JNum (Some (- 3)))])])
     = Inr \<lparr>content = JStr ''hi'', promptTokens = JNum (Some (- 5)),
            completionTokens = JNum (Some 2), totalTokens = JNum (Some (- 3))\<rparr> \<and>
   \<not> is_count (JNum (Some (- 5))) \<and> \<not> is_count (JNum (Some (- 3)))"
  by (simp add: normalize_def shapeA_test_def usage_openai_def js_or_def small_integers_def)

text \<open>
  Claim C9. Whenever the first element of \<open>choices\<close> carries a truthy \<open>message\<close> (an object
  is always truthy), the normalizer succeeds by the OpenAI branch, whatever else the
  payload holds: the content is \<open>message.content\<close> and the three counters are those of the
  OpenAI usage block, which reads \<open>prompt_tokens\<close>, \<open>completion_tokens\<close> and
  \<open>total_tokens\<close> only. A \<open>content\<close> list with a \<open>text\<close> and the counters \<open>input_tokens\<close>
  and \<open>output_tokens\<close> play no part.
\<close>

theorem shapeA_precedence:
  assumes "get_prop data ''choices'' = Inr cs" and "get_index0 cs = Inr c0"
    and "get_prop c0 ''message'' = Inr m" and "truthy N m"
  shows "\<exists>c p q t. get_prop m ''content'' = Inr c \<and> usage_openai N data = Inr (p, q, t) \<and>
           normalize N data =
             Inr \<lparr>content = c, promptTokens = p, completionTokens = q, totalTokens = t\<rparr>"
proof -
  obtain c where c: "get_prop m ''content'' = Inr c" using get_prop_truthy [OF assms(4)] by blast
  obtain p q t where u: "usage_openai N data = Inr (p, q, t)"
    using usage_openai_total get_prop_defined [OF assms(1)] by blast
  have "normalize N data =
          Inr \<lparr>content = c, promptTokens = p, completionTokens = q, totalTokens = t\<rparr>"
    using shapeA_test_True [OF assms(1-4)] assms c u by (simp add: normalize_def)
  with c u show ?thesis by blast
qed

theorem shapeA_precedence_witness:
  "shapeB_test small_integers
     (JObj [(''choices'', JArr [JObj [(''message'', JObj [(''content'', JStr ''a'')])]]),
            (''content'', JArr [JObj [(''text'', JStr ''b'')]]),
            (''usage'', JObj [(''input_tokens'', JNum (Some 3)), (''output_tokens'', JNum (Some 2))])])
     = Inr True \<and>
   normalize small_integers
     (JObj [(''choices'', JArr [JObj [(''message'', JObj [(''content'', JStr ''a'')])]]),
            (''content'', JArr [JObj [(''text'', JStr ''b'')]]),
            (''usage'', JObj [(''input_tokens'', JNum (Some 3)), (''output_tokens'', JNum (Some 2))])])
     = Inr \<lparr>content = JStr ''a'', promptTokens = JNum (Some 0), completionTokens = JNum (Some 0),
            totalTokens = JNum (Some 0)\<rparr>"
  using shapeA_precedence
    [of "JObj [(''choices'', JArr [JObj [(''message'', JObj [(''content'', JStr ''a'')])]]),
               (''content'', JArr [JObj [(''text'', JStr ''b'')]]),
               (''usage'', JObj [(''input_tokens'', JNum (Some 3)), (''output_tokens'', JNum (Some 2))])]"
        "JArr [JObj [(''message'', JObj [(''content'', JStr ''a'')])]]"
        "JObj [(''message'', JObj [(''content'', JStr ''a'')])]"
        "JObj [(''content'', JStr ''a'')]" small_integers]
  by (auto simp: shapeB_test_def usage_openai_def js_or_def small_integers_def)

section \<open>The comparison\<close>

lemma callModel_fst: "fst (callModel e ep k m p) = make_request ep k m p"
  by (simp add: callModel_def Let_def)

lemma displayResults_sent:
  assumes "displayResults N r1 r2 n1 n2 pg = Inr pg'"
  shows "sent pg' = sent pg"
proof -
  obtain m1 where m1: "metrics_of N n1 r1 = Inr m1"
    using assms by (auto simp: displayResults_def ebind_Inr_iff)
  obtain m2 where m2: "metrics_of N n2 r2 = Inr m2"
    using assms by (auto simp: displayResults_def ebind_Inr_iff m1)
  show ?thesis
  proof (cases "highlightToggle pg")
    case True
    obtain t1 where t1: "as_text (content r1) = Inr t1"
      using assms True by (auto simp: displayResults_def m1 m2 Let_def ebind_Inr_iff)
    obtain t2 where t2: "as_text (content r2) = Inr t2"
      using assms True by (auto simp: displayResults_def m1 m2 t1 Let_def ebind_Inr_iff)
    show ?thesis using assms True by (auto simp: displayResults_def m1 m2 t1 t2 Let_def)
  next
    case False
    obtain t1 where t1: "text_content N (content r1) = Inr t1"
      using assms False by (auto simp: displayResults_def m1 m2 Let_def ebind_Inr_iff)
    obtain t2 where t2: "text_content N (content r2) = Inr t2"
      using assms False by (auto simp: displayResults_def m1 m2 t1 Let_def ebind_Inr_iff)
    show ?thesis using assms False by (auto simp: displayResults_def m1 m2 t1 t2 Let_def)
  qed
qed


lemma displayError_sent: "sent (displayError msg pg) = sent pg"
  by (simp add: displayError_def)

text \<open>With all seven fields filled, both requests are sent, whatever the replies are.\<close>

lemma filled_form_sends_both:
  assumes "endpoint1 pg \<noteq> []" "endpoint2 pg \<noteq> []" "apikey1 pg \<noteq> []" "apikey2 pg \<noteq> []"
    "model1 pg \<noteq> []" "model2 pg \<noteq> []" "prompt pg \<noteq> []"
  shows "sent (compareResponses e pg) =
           sent pg @ [make_request (endpoint1 pg) (apikey1 pg) (model1 pg) (prompt pg),
                      make_request (endpoint2 pg) (apikey2 pg) (model2 pg) (prompt pg)]"
proof -
  obtain q1 o1 where c1: "callModel e (endpoint1 pg) (apikey1 pg) (model1 pg) (prompt pg) = (q1, o1)"
    by (cases "callModel e (endpoint1 pg) (apikey1 pg) (model1 pg) (prompt pg)")
  obtain q2 o2 where c2: "callModel e (endpoint2 pg) (apikey2 pg) (model2 pg) (prompt pg) = (q2, o2)"
    by (cases "callModel e (endpoint2 pg) (apikey2 pg) (model2 pg) (prompt pg)")
  have q1: "make_request (endpoint1 pg) (apikey1 pg) (model1 pg) (prompt pg) = q1"
    using callModel_fst [of e "endpoint1 pg" "apikey1 pg" "model1 pg" "prompt pg"] c1 by simp
  have q2: "make_request (endpoint2 pg) (apikey2 pg) (model2 pg) (prompt pg) = q2"
    using callModel_fst [of e "endpoint2 pg" "apikey2 pg" "model2 pg" "prompt pg"] c2 by simp
  show ?thesis
  proof (cases o1)
    case e1: (Inl err1)
    show ?thesis using assms
      by (cases o2) (simp_all add: compareResponses_def Let_def c1 c2 e1 displayError_sent q1 q2)
  next
    case r1: (Inr res1)
    show ?thesis
    proof (cases o2)
      case e2: (Inl err2)
      show ?thesis using assms
        by (simp add: compareResponses_def Let_def c1 c2 r1 e2 displayError_sent q1 q2)
    next
      case r2: (Inr res2)
      show ?thesis using assms
        by (auto simp: compareResponses_def Let_def c1 c2 r1 r2 displayError_sent q1 q2
            split: sum.splits dest: displayResults_sent)
    qed
  qed
qed

text \<open>
  Claim C7. When at least one of the seven fields (two endpoints, two keys, two model
  identifiers, the prompt) is empty, \<open>compareResponses\<close> reports the validation failure,
  the alert \<open>Please fill in all fields\<close>, and changes nothing else on the page: no request
  is sent, and the outcome does not depend on what the network would answer.
\<close>

theorem empty_field_no_request:
  assumes "endpoint1 pg = [] \<or> endpoint2 pg = [] \<or> apikey1 pg = [] \<or> apikey2 pg = [] \<or>
           model1 pg = [] \<or> model2 pg = [] \<or> prompt pg = []"
  shows "compareResponses e pg = pg\<lparr>alerts := alerts pg @ [''Please fill in all fields'']\<rparr> \<and>
         sent (compareResponses e pg) = sent pg"
  using assms by (simp add: compareResponses_def)

theorem empty_field_no_request_witness:
  "prompt \<lparr>endpoint1 = ''https://a.example/v1'', endpoint2 = ''https://b.example/v1'',
           apikey1 = ''k1'', apikey2 = ''k2'', model1 = ''m1'', model2 = ''m2'', prompt = [],
           highlightToggle = True, alerts = [], sent = [], console = [],
           loading_display = ''none'', results_display = ''none'',
           metrics1 = Untouched, metrics2 = Untouched, response1 = Untouched,
           response2 = Untouched\<rparr> = [] \<and>
   compareResponses
     \<lparr>numbers = small_integers, type_error_message = (\<lambda>t. ''type error''),
      fetch = (\<lambda>req. Inr \<lparr>ok = True, status = 200, statusText = ''OK'', json = Inr (JObj [])\<rparr>),
      startTime = (\<lambda>req. 0), endTime = (\<lambda>req. 5), first_rejects_first = True\<rparr>
     \<lparr>endpoint1 = ''https://a.example/v1'', endpoint2 = ''https://b.example/v1'',
      apikey1 = ''k1'', apikey2 = ''k2'', model1 = ''m1'', model2 = ''m2'', prompt = [],
      highlightToggle = True, alerts = [], sent = [], console = [],
      loading_display = ''none'', results_display = ''none'',
      metrics1 = Untouched, metrics2 = Untouched, response1 = Untouched,
      response2 = Untouched\<rparr>
   = \<lparr>endpoint1 = ''https://a.example/v1'', endpoint2 = ''https://b.example/v1'',
      apikey1 = ''k1'', apikey2 = ''k2'', model1 = ''m1'', model2 = ''m2'', prompt = [],
      highlightToggle = True, alerts = [''Please fill in all fields''], sent = [], console = [],
      loading_display = ''none'', results_display = ''none'',
      metrics1 = Untouched, metrics2 = Untouched, response1 = Untouched,
      response2 = Untouched\<rparr>"
  using empty_field_no_request
    [of "\<lparr>endpoint1 = ''https://a.example/v1'', endpoint2 = ''https://b.example/v1'',
      apikey1 = ''k1'', apikey2 = ''k2'', model1 = ''m1'', model2 = ''m2'', prompt = [],
      highlightToggle = True, alerts = [], sent = [], console = [],
      loading_display = ''none'', results_display = ''none'',
      metrics1 = Untouched, metrics2 = Untouched, response1 = Untouched,
      response2 = Untouched\<rparr>"
     "\<lparr>numbers = small_integers, type_error_message = (\<lambda>t. ''type error''),
      fetch = (\<lambda>req. Inr \<lparr>ok = True, status = 200, statusText = ''OK'', json = Inr (JObj [])\<rparr>),
      startTime = (\<lambda>req. 0), endTime = (\<lambda>req. 5), first_rejects_first = True\<rparr>"]
  by simp

end
